theory Spec2Isabelle
  imports Main "HOL-Library.Word" "HOL-Library.Infinite_Set"
begin

unbundle bit_operations_syntax

section \<open>The world the HyperHealth functions run in\<close>

text \<open>
  Python's \<^verbatim>\<open>bytes\<close> is a list of 8-bit words. Base64 text, the value of an environment
  variable and file names are strings of 8-bit characters, enough for the codecs below,
  which treat every character above 127 alike; a user identifier, whose \<^verbatim>\<open>encode()\<close>
  distinguishes all of Unicode, is a list of code points.

  Exceptions are values: every \<^verbatim>\<open>raise\<close> of the source, and of the library calls it
  makes, is an \<open>Inl\<close> result.
\<close>

type_synonym byte = "8 word"
type_synonym bytes = "byte list"
type_synonym codepoints = "nat list"

datatype error =
    RuntimeError
  | ValueError
  | UnicodeEncodeError
  | BinasciiError
  | InvalidTag

text \<open>
  Everything a function can observe or change beyond its arguments: the regular files of
  the file system (path to contents), the working directory, the process environment,
  the operating system's random source (an unbounded sequence of bytes and the position
  of the next unread byte), and the log of file writes performed so far (newest first).
  Directories, permissions and I/O failures are outside the model.
\<close>

record world =
  files :: "string \<rightharpoonup> bytes"
  cwd :: string
  environ :: "string \<rightharpoonup> string"
  entropy :: "nat \<Rightarrow> byte"
  entropy_pos :: nat
  write_log :: "(string \<times> bytes) list"

text \<open>\<^verbatim>\<open>os.urandom(n)\<close>: the next \<open>n\<close> bytes of the random source, which are then used up.\<close>

definition os_urandom :: "nat \<Rightarrow> world \<Rightarrow> bytes \<times> world" where
  "os_urandom n w =
     (map (entropy w) [entropy_pos w ..< entropy_pos w + n],
      w\<lparr>entropy_pos := entropy_pos w + n\<rparr>)"

text \<open>\<^verbatim>\<open>open(path, "wb").write(data)\<close>: the file is created or replaced, and the write is logged.\<close>

definition write_file :: "string \<Rightarrow> bytes \<Rightarrow> world \<Rightarrow> world" where
  "write_file path data w =
     w\<lparr>files := (files w)(path \<mapsto> data), write_log := (path, data) # write_log w\<rparr>"

text \<open>
  \<^verbatim>\<open>os.path.join(a, b)\<close> on POSIX: an absolute \<open>b\<close> replaces \<open>a\<close>; otherwise the two are joined
  with one separator unless \<open>a\<close> is empty or already ends with it.
\<close>

definition path_join :: "string \<Rightarrow> string \<Rightarrow> string" where
  "path_join a b =
     (if b \<noteq> [] \<and> hd b = CHR ''/'' then b
      else if a = [] \<or> last a = CHR ''/'' then a @ b
      else a @ ''/'' @ b)"

section \<open>The codecs of the standard library that the helpers call\<close>

subsection \<open>\<^verbatim>\<open>base64.b64encode\<close> and \<^verbatim>\<open>base64.b64decode\<close>\<close>

definition b64_alphabet :: string where
  "b64_alphabet = ''ABCDEFGHIJKLMNOPQRSTUVWXYZabcdefghijklmnopqrstuvwxyz0123456789+/''"

definition b64_char :: "nat \<Rightarrow> char" where
  "b64_char n = b64_alphabet ! n"

text \<open>The decoding table: the position of a character in the alphabet, if it is there.\<close>

fun position :: "'a \<Rightarrow> 'a list \<Rightarrow> nat option" where
  "position x [] = None"
| "position x (y # ys) = (if x = y then Some 0 else map_option Suc (position x ys))"

definition b64_value :: "char \<Rightarrow> nat option" where
  "b64_value c = position c b64_alphabet"

text \<open>
  \<^verbatim>\<open>b64encode\<close>: three bytes become four characters of six bits each; a last group of
  one or two bytes is padded with \<^verbatim>\<open>=\<close>. The result, ASCII bytes in Python, is given here
  as the string that \<^verbatim>\<open>.decode()\<close> makes of it.
\<close>

fun b64encode :: "bytes \<Rightarrow> string" where
  "b64encode [] = []"
| "b64encode [a] =
     [b64_char (unat a div 4), b64_char ((unat a mod 4) * 16), CHR ''='', CHR ''='']"
| "b64encode [a, b] =
     [b64_char (unat a div 4), b64_char ((unat a mod 4) * 16 + unat b div 16),
      b64_char ((unat b mod 16) * 4), CHR ''='']"
| "b64encode (a # b # c # rest) =
     [b64_char (unat a div 4), b64_char ((unat a mod 4) * 16 + unat b div 16),
      b64_char ((unat b mod 16) * 4 + unat c div 64), b64_char (unat c mod 64)]
     @ b64encode rest"

text \<open>
  \<^verbatim>\<open>binascii.a2b_base64\<close> in its default, non-strict mode, as \<^verbatim>\<open>b64decode\<close> calls it: one
  pass over the characters with the position in the current group of four
  (\<open>quad_pos\<close>), the bits left over from the previous character (\<open>leftchar\<close>) and the
  count of padding characters seen in a row (\<open>pads\<close>). A character outside the alphabet
  is skipped; a padding character ends the input once it completes a group; input that
  ends inside a group is an error.
\<close>

fun a2b_base64 :: "string \<Rightarrow> nat \<Rightarrow> nat \<Rightarrow> nat \<Rightarrow> bytes \<Rightarrow> error + bytes" where
  "a2b_base64 [] quad_pos leftchar pads out =
     (if quad_pos \<noteq> 0 then Inl BinasciiError else Inr out)"
| "a2b_base64 (ch # rest) quad_pos leftchar pads out =
     (if ch = CHR ''='' then
        (if 2 \<le> quad_pos then
           (if 4 \<le> quad_pos + (pads + 1) then Inr out
            else a2b_base64 rest quad_pos leftchar (pads + 1) out)
         else a2b_base64 rest quad_pos leftchar pads out)
      else
        (case b64_value ch of
           None \<Rightarrow> a2b_base64 rest quad_pos leftchar pads out
         | Some v \<Rightarrow>
             (if quad_pos = 0 then a2b_base64 rest 1 v 0 out
              else if quad_pos = 1 then
                a2b_base64 rest 2 (v mod 16) 0 (out @ [of_nat (leftchar * 4 + v div 16)])
              else if quad_pos = 2 then
                a2b_base64 rest 3 (v mod 4) 0 (out @ [of_nat (leftchar * 16 + v div 4)])
              else a2b_base64 rest 0 0 0 (out @ [of_nat (leftchar * 64 + v)]))))"

text \<open>
  \<^verbatim>\<open>b64decode(s)\<close> for a string \<open>s\<close>: the string is first encoded as ASCII, which fails
  with \<^verbatim>\<open>ValueError\<close> on any other character.
\<close>

definition b64decode :: "string \<Rightarrow> error + bytes" where
  "b64decode s =
     (if list_ex (\<lambda>c. 128 \<le> (of_char c :: nat)) s then Inl ValueError
      else a2b_base64 s 0 0 0 [])"

subsection \<open>\<^verbatim>\<open>bytes.fromhex\<close>\<close>

definition hex_value :: "char \<Rightarrow> nat option" where
  "hex_value c =
     (let n = (of_char c :: nat) in
      if 48 \<le> n \<and> n \<le> 57 then Some (n - 48)
      else if 97 \<le> n \<and> n \<le> 102 then Some (n - 87)
      else if 65 \<le> n \<and> n \<le> 70 then Some (n - 55)
      else None)"

text \<open>ASCII white space: space, tab, line feed, vertical tab, form feed, carriage return.\<close>

definition is_space :: "char \<Rightarrow> bool" where
  "is_space c = ((of_char c :: nat) = 32 \<or> (9 \<le> (of_char c :: nat) \<and> (of_char c :: nat) \<le> 13))"

text \<open>
  White space is skipped between bytes only; each byte is two hexadecimal digits;
  anything else is a \<^verbatim>\<open>ValueError\<close>.
\<close>

fun fromhex :: "string \<Rightarrow> error + bytes" where
  "fromhex [] = Inr []"
| "fromhex [c] = (if is_space c then Inr [] else Inl ValueError)"
| "fromhex (c # d # rest) =
     (if is_space c then fromhex (d # rest)
      else
        (case (hex_value c, hex_value d) of
           (Some hi, Some lo) \<Rightarrow>
             (case fromhex rest of
                Inl e \<Rightarrow> Inl e
              | Inr bs \<Rightarrow> Inr (of_nat (hi * 16 + lo) # bs))
         | _ \<Rightarrow> Inl ValueError))"

subsection \<open>\<^verbatim>\<open>str.encode()\<close>: UTF-8\<close>

text \<open>
  A code point takes one to four bytes. A surrogate (\<open>0xD800\<close> to \<open>0xDFFF\<close>) cannot be
  encoded: \<^verbatim>\<open>UnicodeEncodeError\<close>. Python strings hold no code point above \<open>0x10FFFF\<close>;
  the last branch, which no string reaches, is an error too.
\<close>

definition utf8_char :: "nat \<Rightarrow> error + bytes" where
  "utf8_char c =
     (if c < 0x80 then Inr [of_nat c]
      else if c < 0x800 then Inr [of_nat (0xC0 + c div 64), of_nat (0x80 + c mod 64)]
      else if c < 0x10000 then
        (if 0xD800 \<le> c \<and> c \<le> 0xDFFF then Inl UnicodeEncodeError
         else Inr [of_nat (0xE0 + c div 4096), of_nat (0x80 + (c div 64) mod 64),
                   of_nat (0x80 + c mod 64)])
      else if c < 0x110000 then
        Inr [of_nat (0xF0 + c div 262144), of_nat (0x80 + (c div 4096) mod 64),
             of_nat (0x80 + (c div 64) mod 64), of_nat (0x80 + c mod 64)]
      else Inl UnicodeEncodeError)"

fun str_encode :: "codepoints \<Rightarrow> error + bytes" where
  "str_encode [] = Inr []"
| "str_encode (c # cs) =
     (case utf8_char c of
        Inl e \<Rightarrow> Inl e
      | Inr bs \<Rightarrow> (case str_encode cs of Inl e \<Rightarrow> Inl e | Inr rest \<Rightarrow> Inr (bs @ rest)))"


section \<open>The cryptographic libraries\<close>

text \<open>
  \<^verbatim>\<open>hashlib\<close> and the \<^verbatim>\<open>cryptography\<close> package are external to the repository.
  \<^item> SHA-256 and PBKDF2 are parameters that give the bytes of their output one by one:
    what is fixed is that a digest has 32 bytes and that \<^verbatim>\<open>pbkdf2_hmac\<close> returns
    \<open>dklen\<close> bytes.
  \<^item> AES-GCM is written out as the standard defines it (with no associated data, as the
    source calls it), over a block cipher that is a parameter too: what decryption
    accepts is decided by this arithmetic. AES itself is given below, for the results
    that are computed on concrete bytes.
\<close>

type_synonym block = "128 word"

record cryptolib =
  sha256_byte :: "bytes \<Rightarrow> nat \<Rightarrow> byte"
  pbkdf2_byte :: "string \<Rightarrow> bytes \<Rightarrow> bytes \<Rightarrow> nat \<Rightarrow> nat \<Rightarrow> nat \<Rightarrow> byte"
  block_encrypt :: "bytes \<Rightarrow> block \<Rightarrow> block"

text \<open>\<^verbatim>\<open>hashlib.sha256(data).digest()\<close>\<close>

definition sha256_digest :: "cryptolib \<Rightarrow> bytes \<Rightarrow> bytes" where
  "sha256_digest L data = map (sha256_byte L data) [0..<32]"

text \<open>\<^verbatim>\<open>hashlib.pbkdf2_hmac(hash_name, password, salt, iterations, dklen)\<close>\<close>

definition pbkdf2_hmac :: "cryptolib \<Rightarrow> string \<Rightarrow> bytes \<Rightarrow> bytes \<Rightarrow> nat \<Rightarrow> nat \<Rightarrow> bytes" where
  "pbkdf2_hmac L hash_name password salt iterations dklen =
     map (pbkdf2_byte L hash_name password salt iterations dklen) [0..<dklen]"

definition xor_bytes :: "bytes \<Rightarrow> bytes \<Rightarrow> bytes" where
  "xor_bytes xs ys = map (\<lambda>(a, b). a XOR b) (zip xs ys)"

subsection \<open>GCM (NIST SP 800-38D), without associated data\<close>

text \<open>
  A block of 16 bytes is read as a 128-bit word, first byte first; a shorter string is
  filled up with zero bytes.
\<close>

definition block_of_bytes :: "bytes \<Rightarrow> block" where
  "block_of_bytes bs = foldl (\<lambda>acc b. push_bit 8 acc XOR ucast b) 0 (take 16 (bs @ replicate 16 0))"

definition bytes_of_block :: "block \<Rightarrow> bytes" where
  "bytes_of_block x = map (\<lambda>i. ucast (drop_bit (8 * (15 - i)) x)) [0..<16]"

text \<open>
  Multiplication in the field of \<open>2 ^ 128\<close> elements. The leftmost bit of a block is
  the constant coefficient, so multiplying by the indeterminate shifts to the right, and
  a bit that falls off is fed back as \<open>0xE1\<close> in the first byte.
\<close>

definition gf_step :: "block \<Rightarrow> block" where
  "gf_step v =
     (if bit v 0 then drop_bit 1 v XOR 0xE1000000000000000000000000000000 else drop_bit 1 v)"

fun gf_terms :: "nat \<Rightarrow> block \<Rightarrow> block \<Rightarrow> block" where
  "gf_terms 0 x v = 0"
| "gf_terms (Suc n) x v = (if bit x n then v else 0) XOR gf_terms n x (gf_step v)"

definition gf_mult :: "block \<Rightarrow> block \<Rightarrow> block" where
  "gf_mult x y = gf_terms 128 x y"

text \<open>GHASH: each block is added to the running value, which is then multiplied by \<open>h\<close>.\<close>

fun ghash_blocks :: "block \<Rightarrow> block \<Rightarrow> block list \<Rightarrow> block" where
  "ghash_blocks h y [] = y"
| "ghash_blocks h y (b # bs) = ghash_blocks h (gf_mult (y XOR b) h) bs"

definition blocks_of :: "bytes \<Rightarrow> block list" where
  "blocks_of bs = map (\<lambda>i. block_of_bytes (take 16 (drop (16 * i) bs))) [0..<(length bs + 15) div 16]"

text \<open>The hash of a string: its blocks, then its length in bits.\<close>

definition ghash :: "block \<Rightarrow> bytes \<Rightarrow> block" where
  "ghash h bs = ghash_blocks h 0 (blocks_of bs @ [of_nat (8 * length bs)])"

text \<open>
  The hash subkey is the encryption of the zero block. The first counter block is the
  IV followed by the number one when the IV has 12 bytes, and the hash of the IV
  otherwise. Only the last 32 bits of a counter block count up.
\<close>

definition hash_subkey :: "cryptolib \<Rightarrow> bytes \<Rightarrow> block" where
  "hash_subkey L k = block_encrypt L k 0"

definition initial_counter :: "cryptolib \<Rightarrow> bytes \<Rightarrow> bytes \<Rightarrow> block" where
  "initial_counter L k v =
     (if length v = 12 then block_of_bytes (v @ [0, 0, 0, 1]) else ghash (hash_subkey L k) v)"

definition counter_block :: "block \<Rightarrow> nat \<Rightarrow> block" where
  "counter_block j n = push_bit 32 (drop_bit 32 j) XOR take_bit 32 (j + of_nat n)"

text \<open>
  Byte \<open>i\<close> of the key stream lies in the encryption of counter block \<open>i div 16 + 1\<close>;
  the tag is the hash of the ciphertext, masked with the encryption of the first
  counter block.
\<close>

definition keystream_byte :: "cryptolib \<Rightarrow> bytes \<Rightarrow> bytes \<Rightarrow> nat \<Rightarrow> byte" where
  "keystream_byte L k v i =
     bytes_of_block (block_encrypt L k (counter_block (initial_counter L k v) (i div 16 + 1))) ! (i mod 16)"

definition gcm_crypt :: "cryptolib \<Rightarrow> bytes \<Rightarrow> bytes \<Rightarrow> bytes \<Rightarrow> bytes" where
  "gcm_crypt L key iv data =
     map (\<lambda>(i, b). b XOR keystream_byte L key iv i) (zip [0..<length data] data)"

definition gcm_tag :: "cryptolib \<Rightarrow> bytes \<Rightarrow> bytes \<Rightarrow> bytes \<Rightarrow> bytes" where
  "gcm_tag L key iv ct =
     bytes_of_block (ghash (hash_subkey L key) ct XOR block_encrypt L key (initial_counter L key iv))"

text \<open>
  The hash of the difference of two strings of one length: the blocks of the
  difference, then a zero block where the two lengths cancel.
\<close>

definition ghash_difference :: "block \<Rightarrow> bytes \<Rightarrow> block" where
  "ghash_difference h d = ghash_blocks h 0 (blocks_of d @ [0])"

subsection \<open>The AES block cipher (FIPS 197)\<close>

text \<open>The S-box, as 16 rows of 16 entries: the row is the high half of the byte.\<close>

definition sbox :: "byte list list" where
  "sbox =
     [[0x63, 0x7c, 0x77, 0x7b, 0xf2, 0x6b, 0x6f, 0xc5, 0x30, 0x01, 0x67, 0x2b, 0xfe, 0xd7, 0xab, 0x76],
      [0xca, 0x82, 0xc9, 0x7d, 0xfa, 0x59, 0x47, 0xf0, 0xad, 0xd4, 0xa2, 0xaf, 0x9c, 0xa4, 0x72, 0xc0],
      [0xb7, 0xfd, 0x93, 0x26, 0x36, 0x3f, 0xf7, 0xcc, 0x34, 0xa5, 0xe5, 0xf1, 0x71, 0xd8, 0x31, 0x15],
      [0x04, 0xc7, 0x23, 0xc3, 0x18, 0x96, 0x05, 0x9a, 0x07, 0x12, 0x80, 0xe2, 0xeb, 0x27, 0xb2, 0x75],
      [0x09, 0x83, 0x2c, 0x1a, 0x1b, 0x6e, 0x5a, 0xa0, 0x52, 0x3b, 0xd6, 0xb3, 0x29, 0xe3, 0x2f, 0x84],
      [0x53, 0xd1, 0x00, 0xed, 0x20, 0xfc, 0xb1, 0x5b, 0x6a, 0xcb, 0xbe, 0x39, 0x4a, 0x4c, 0x58, 0xcf],
      [0xd0, 0xef, 0xaa, 0xfb, 0x43, 0x4d, 0x33, 0x85, 0x45, 0xf9, 0x02, 0x7f, 0x50, 0x3c, 0x9f, 0xa8],
      [0x51, 0xa3, 0x40, 0x8f, 0x92, 0x9d, 0x38, 0xf5, 0xbc, 0xb6, 0xda, 0x21, 0x10, 0xff, 0xf3, 0xd2],
      [0xcd, 0x0c, 0x13, 0xec, 0x5f, 0x97, 0x44, 0x17, 0xc4, 0xa7, 0x7e, 0x3d, 0x64, 0x5d, 0x19, 0x73],
      [0x60, 0x81, 0x4f, 0xdc, 0x22, 0x2a, 0x90, 0x88, 0x46, 0xee, 0xb8, 0x14, 0xde, 0x5e, 0x0b, 0xdb],
      [0xe0, 0x32, 0x3a, 0x0a, 0x49, 0x06, 0x24, 0x5c, 0xc2, 0xd3, 0xac, 0x62, 0x91, 0x95, 0xe4, 0x79],
      [0xe7, 0xc8, 0x37, 0x6d, 0x8d, 0xd5, 0x4e, 0xa9, 0x6c, 0x56, 0xf4, 0xea, 0x65, 0x7a, 0xae, 0x08],
      [0xba, 0x78, 0x25, 0x2e, 0x1c, 0xa6, 0xb4, 0xc6, 0xe8, 0xdd, 0x74, 0x1f, 0x4b, 0xbd, 0x8b, 0x8a],
      [0x70, 0x3e, 0xb5, 0x66, 0x48, 0x03, 0xf6, 0x0e, 0x61, 0x35, 0x57, 0xb9, 0x86, 0xc1, 0x1d, 0x9e],
      [0xe1, 0xf8, 0x98, 0x11, 0x69, 0xd9, 0x8e, 0x94, 0x9b, 0x1e, 0x87, 0xe9, 0xce, 0x55, 0x28, 0xdf],
      [0x8c, 0xa1, 0x89, 0x0d, 0xbf, 0xe6, 0x42, 0x68, 0x41, 0x99, 0x2d, 0x0f, 0xb0, 0x54, 0xbb, 0x16]]"

definition sub_byte :: "byte \<Rightarrow> byte" where
  "sub_byte b = sbox ! unat (drop_bit 4 b) ! unat (take_bit 4 b)"

text \<open>Multiplication by \<open>x\<close> in the field of 256 elements.\<close>

definition xtime :: "byte \<Rightarrow> byte" where
  "xtime b = (if bit b 7 then push_bit 1 b XOR 0x1b else push_bit 1 b)"

text \<open>The state is the block, column by column.\<close>

fun shift_rows :: "bytes \<Rightarrow> bytes" where
  "shift_rows [s0, s1, s2, s3, s4, s5, s6, s7, s8, s9, s10, s11, s12, s13, s14, s15] =
     [s0, s5, s10, s15, s4, s9, s14, s3, s8, s13, s2, s7, s12, s1, s6, s11]"
| "shift_rows s = s"

fun mix_columns :: "bytes \<Rightarrow> bytes" where
  "mix_columns (a0 # a1 # a2 # a3 # rest) =
     [xtime a0 XOR (xtime a1 XOR a1) XOR a2 XOR a3,
      a0 XOR xtime a1 XOR (xtime a2 XOR a2) XOR a3,
      a0 XOR a1 XOR xtime a2 XOR (xtime a3 XOR a3),
      (xtime a0 XOR a0) XOR a1 XOR a2 XOR xtime a3] @ mix_columns rest"
| "mix_columns s = s"

text \<open>
  The key schedule, one group of \<open>Nk\<close> words at a time: the first word of a group is
  the first word of the group before, combined with the rotated and substituted last
  word and the round constant; each further word is the word in the same place of the
  group before, combined with the word just made (substituted first, for a 256-bit
  key, at the fifth place).
\<close>

fun words4 :: "'a list \<Rightarrow> 'a list list" where
  "words4 (a # b # c # d # rest) = [a, b, c, d] # words4 rest"
| "words4 s = []"

definition rot_sub :: "byte \<Rightarrow> bytes \<Rightarrow> bytes" where
  "rot_sub rc t =
     (case map sub_byte (tl t @ [hd t]) of [] \<Rightarrow> [] | u # us \<Rightarrow> (u XOR rc) # us)"

fun schedule_rest :: "bool \<Rightarrow> nat \<Rightarrow> bytes \<Rightarrow> bytes list \<Rightarrow> bytes list" where
  "schedule_rest wide j prev [] = []"
| "schedule_rest wide j prev (w # ws) =
     (let n = xor_bytes w (if wide \<and> j = 4 then map sub_byte prev else prev)
      in n # schedule_rest wide (Suc j) n ws)"

definition next_words :: "byte \<Rightarrow> bytes list \<Rightarrow> bytes list" where
  "next_words rc ws =
     (let first = xor_bytes (hd ws) (rot_sub rc (last ws))
      in first # schedule_rest (6 < length ws) 1 first (tl ws))"

fun key_schedule :: "nat \<Rightarrow> byte \<Rightarrow> bytes list \<Rightarrow> bytes list" where
  "key_schedule 0 rc ws = ws"
| "key_schedule (Suc n) rc ws = ws @ key_schedule n (xtime rc) (next_words rc ws)"

text \<open>Round keys: 11, 13 or 15 of them for a key of 16, 24 or 32 bytes.\<close>

definition round_keys :: "bytes \<Rightarrow> bytes list" where
  "round_keys k =
     (if length k = 16 then take 11 (map concat (words4 (key_schedule 10 1 (words4 k))))
      else if length k = 24 then take 13 (map concat (words4 (key_schedule 8 1 (words4 k))))
      else take 15 (map concat (words4 (key_schedule 7 1 (words4 k)))))"

fun rounds :: "bytes list \<Rightarrow> bytes \<Rightarrow> bytes" where
  "rounds [] s = s"
| "rounds [k] s = xor_bytes (shift_rows (map sub_byte s)) k"
| "rounds (k # ks) s = rounds ks (xor_bytes (mix_columns (shift_rows (map sub_byte s))) k)"

definition aes_encrypt :: "bytes \<Rightarrow> bytes \<Rightarrow> bytes" where
  "aes_encrypt k pt = (case round_keys k of [] \<Rightarrow> pt | k0 # ks \<Rightarrow> rounds ks (xor_bytes pt k0))"

text \<open>AES as a block cipher on 128-bit words.\<close>

definition aes_block :: "bytes \<Rightarrow> block \<Rightarrow> block" where
  "aes_block k x = block_of_bytes (aes_encrypt k (bytes_of_block x))"

text \<open>
  The size checks of the \<^verbatim>\<open>cryptography\<close> package, each a \<^verbatim>\<open>ValueError\<close>: an AES key
  for GCM has 128, 192 or 256 bits; a GCM IV or nonce has 8 to 128 bytes.
\<close>

definition valid_aes_key :: "bytes \<Rightarrow> bool" where
  "valid_aes_key key = (length key = 16 \<or> length key = 24 \<or> length key = 32)"

definition valid_gcm_iv :: "bytes \<Rightarrow> bool" where
  "valid_gcm_iv iv = (8 \<le> length iv \<and> length iv \<le> 128)"

text \<open>
  \<^verbatim>\<open>AESGCM(key).encrypt(nonce, data, None)\<close> returns the ciphertext with the tag
  appended; \<^verbatim>\<open>AESGCM(key).decrypt(nonce, data, None)\<close> takes the last 16 bytes as the
  tag and raises \<^verbatim>\<open>InvalidTag\<close> when they are missing or do not match.
\<close>

definition AESGCM :: "bytes \<Rightarrow> error + bytes" where
  "AESGCM key = (if valid_aes_key key then Inr key else Inl ValueError)"

definition aesgcm_encrypt :: "cryptolib \<Rightarrow> bytes \<Rightarrow> bytes \<Rightarrow> bytes \<Rightarrow> error + bytes" where
  "aesgcm_encrypt L key nonce data =
     (if \<not> valid_gcm_iv nonce then Inl ValueError
      else let ct = gcm_crypt L key nonce data in Inr (ct @ gcm_tag L key nonce ct))"

definition aesgcm_decrypt :: "cryptolib \<Rightarrow> bytes \<Rightarrow> bytes \<Rightarrow> bytes \<Rightarrow> error + bytes" where
  "aesgcm_decrypt L key nonce data =
     (if \<not> valid_gcm_iv nonce then Inl ValueError
      else if length data < 16 then Inl InvalidTag
      else
        let ct = take (length data - 16) data; tag = drop (length data - 16) data in
        if tag = gcm_tag L key nonce ct then Inr (gcm_crypt L key nonce ct)
        else Inl InvalidTag)"

section \<open>\<^verbatim>\<open>records/encryption.py\<close>\<close>

text \<open>
  \<^verbatim>\<open>derive_user_key(master_key, user_id)\<close>: the salt is the SHA-256 digest of the encoded
  identifier; 64 bytes are derived; \<^verbatim>\<open>dk[:32], dk[32:]\<close> splits them. Like every call it
  runs in a world; it reads nothing of it and hands it back.
\<close>

definition derive_user_key :: "cryptolib \<Rightarrow> bytes \<Rightarrow> codepoints \<Rightarrow> world \<Rightarrow> (error + bytes \<times> bytes) \<times> world" where
  "derive_user_key L master_key user_id w =
     (case str_encode user_id of
        Inl e \<Rightarrow> (Inl e, w)
      | Inr encoded \<Rightarrow>
          let salt = sha256_digest L encoded;
              dk = pbkdf2_hmac L ''sha256'' master_key salt 100000 64
          in (Inr (take 32 dk, drop 32 dk), w))"

text \<open>
  \<^verbatim>\<open>encrypt_data(data, key, iv)\<close> of the records package:
  \<^verbatim>\<open>Cipher(algorithms.AES(key), modes.GCM(iv))\<close> checks the key, then the IV; the
  ciphertext and the tag are returned as two base64 strings.
\<close>

definition records_encrypt_data :: "cryptolib \<Rightarrow> bytes \<Rightarrow> bytes \<Rightarrow> bytes \<Rightarrow> error + string \<times> string" where
  "records_encrypt_data L data key iv =
     (if \<not> valid_aes_key key then Inl ValueError
      else if \<not> valid_gcm_iv iv then Inl ValueError
      else
        let ct = gcm_crypt L key iv data in
        Inr (b64encode ct, b64encode (gcm_tag L key iv ct)))"

text \<open>
  \<^verbatim>\<open>decrypt_data(ciphertext_b64, tag_b64, key, iv)\<close> of the records package: both strings
  are decoded first; a tag shorter than 16 bytes is refused by \<^verbatim>\<open>modes.GCM(iv, tag)\<close>
  and one longer than 16 bytes by the cipher context, both with \<^verbatim>\<open>ValueError\<close>;
  \<^verbatim>\<open>finalize()\<close> raises \<^verbatim>\<open>InvalidTag\<close> when the tag does not match, so that nothing is
  returned.
\<close>

definition records_decrypt_data :: "cryptolib \<Rightarrow> string \<Rightarrow> string \<Rightarrow> bytes \<Rightarrow> bytes \<Rightarrow> error + bytes" where
  "records_decrypt_data L ciphertext_b64 tag_b64 key iv =
     (case b64decode ciphertext_b64 of
        Inl e \<Rightarrow> Inl e
      | Inr ct \<Rightarrow>
          (case b64decode tag_b64 of
             Inl e \<Rightarrow> Inl e
           | Inr tag \<Rightarrow>
               if \<not> valid_aes_key key then Inl ValueError
               else if \<not> valid_gcm_iv iv then Inl ValueError
               else if length tag < 16 then Inl ValueError
               else if 16 < length tag then Inl ValueError
               else if tag = gcm_tag L key iv ct then Inr (gcm_crypt L key iv ct)
               else Inl InvalidTag))"

text \<open>
  \<^verbatim>\<open>load_master_key()\<close>: the file \<^verbatim>\<open>master.key\<close> of the working directory is read when it
  exists; otherwise 32 random bytes are drawn, written to it and returned.
\<close>

definition load_master_key :: "world \<Rightarrow> bytes \<times> world" where
  "load_master_key w =
     (let path = path_join (cwd w) ''master.key'' in
      case files w path of
        Some content \<Rightarrow> (content, w)
      | None \<Rightarrow>
          let (key, w1) = os_urandom 32 w in (key, write_file path key w1))"

text \<open>How the world stands after \<open>n\<close> calls of \<open>load_master_key\<close> in a row.\<close>

fun load_master_key_times :: "nat \<Rightarrow> world \<Rightarrow> world" where
  "load_master_key_times 0 w = w"
| "load_master_key_times (Suc n) w = load_master_key_times n (snd (load_master_key w))"

section \<open>\<^verbatim>\<open>security/crypto.py\<close>\<close>

definition KEY_SIZE :: nat where
  "KEY_SIZE = 32"

definition MASTER_KEY_ENV_VAR :: string where
  "MASTER_KEY_ENV_VAR = ''HYPERHEALTH_MASTER_KEY''"

definition generate_random_bytes :: "nat \<Rightarrow> world \<Rightarrow> bytes \<times> world" where
  "generate_random_bytes n w = os_urandom n w"

text \<open>
  \<^verbatim>\<open>_get_master_key()\<close>: \<^verbatim>\<open>RuntimeError\<close> when the variable is not set, otherwise
  whatever \<^verbatim>\<open>bytes.fromhex\<close> makes of its value.
\<close>

definition get_master_key :: "world \<Rightarrow> error + bytes" where
  "get_master_key w =
     (case environ w MASTER_KEY_ENV_VAR of
        None \<Rightarrow> Inl RuntimeError
      | Some k \<Rightarrow> fromhex k)"

text \<open>
  \<^verbatim>\<open>encrypt_data(plaintext, nonce=None)\<close> of the security package. The nonce is drawn
  before the key is read, so the random bytes are used up even when the call then
  fails.
\<close>

definition security_encrypt_data :: "cryptolib \<Rightarrow> bytes \<Rightarrow> bytes option \<Rightarrow> world \<Rightarrow> (error + bytes \<times> bytes) \<times> world" where
  "security_encrypt_data L plaintext nonce w =
     (let (nonce', w1) = (case nonce of None \<Rightarrow> generate_random_bytes 12 w | Some n \<Rightarrow> (n, w)) in
      case get_master_key w1 of
        Inl e \<Rightarrow> (Inl e, w1)
      | Inr k \<Rightarrow>
          (case AESGCM k of
             Inl e \<Rightarrow> (Inl e, w1)
           | Inr aesgcm \<Rightarrow>
               (case aesgcm_encrypt L aesgcm nonce' plaintext of
                  Inl e \<Rightarrow> (Inl e, w1)
                | Inr ciphertext \<Rightarrow> (Inr (ciphertext, nonce'), w1))))"

text \<open>\<^verbatim>\<open>decrypt_data(ciphertext, nonce)\<close> of the security package; it changes nothing.\<close>

definition security_decrypt_data :: "cryptolib \<Rightarrow> bytes \<Rightarrow> bytes \<Rightarrow> world \<Rightarrow> error + bytes" where
  "security_decrypt_data L ciphertext nonce w =
     (case get_master_key w of
        Inl e \<Rightarrow> Inl e
      | Inr k \<Rightarrow>
          (case AESGCM k of
             Inl e \<Rightarrow> Inl e
           | Inr aesgcm \<Rightarrow> aesgcm_decrypt L aesgcm nonce ciphertext))"

section \<open>\<^verbatim>\<open>phone/__init__.py\<close> and \<^verbatim>\<open>api/__init__.py\<close>\<close>

text \<open>
  \<^verbatim>\<open>start_call(phone_number, context=None)\<close> has the single statement \<^verbatim>\<open>return True\<close>.
  The metadata is an optional dictionary.
\<close>

definition CALL_TIMEOUT_SECONDS :: nat where
  "CALL_TIMEOUT_SECONDS = 300"

definition start_call :: "string \<Rightarrow> ('k \<rightharpoonup> 'v) option \<Rightarrow> world \<Rightarrow> bool \<times> world" where
  "start_call phone_number context w = (True, w)"

text \<open>
  \<^verbatim>\<open>register_routes(app)\<close> has the single statement \<^verbatim>\<open>pass\<close>: it returns Python's
  \<^verbatim>\<open>None\<close> (the unit value); the application object, of any type, is handed back as it
  stands after the call.
\<close>

definition register_routes :: "'app \<Rightarrow> world \<Rightarrow> unit \<times> 'app \<times> world" where
  "register_routes app w = ((), app, w)"

section \<open>Sample inputs\<close>

text \<open>
  A library and a small world, on which the hypotheses of the theorems below are checked
  to be satisfiable. The block cipher of the library is AES itself; its digests are
  stand-ins. The world has no \<^verbatim>\<open>master.key\<close> yet; its environment holds the given value,
  if any, for the master-key variable.
\<close>

definition sample_lib :: cryptolib where
  "sample_lib =
     \<lparr>sha256_byte = (\<lambda>data i. of_nat (length data + i)),
      pbkdf2_byte = (\<lambda>hash_name password salt iterations dklen i. of_nat (length password + 3 * i)),
      block_encrypt = aes_block\<rparr>"

definition sample_world :: "string option \<Rightarrow> world" where
  "sample_world key_hex =
     \<lparr>files = Map.empty,
      cwd = ''/srv/hyperhealth'',
      environ = (\<lambda>name. if name = MASTER_KEY_ENV_VAR then key_hex else None),
      entropy = (\<lambda>i. of_nat (7 * i + 1)),
      entropy_pos = 0,
      write_log = []\<rparr>"

definition sample_key_hex :: string where
  "sample_key_hex = ''000102030405060708090a0b0c0d0e0f''"

definition sample_key :: bytes where
  "sample_key = [0x00, 0x01, 0x02, 0x03, 0x04, 0x05, 0x06, 0x07, 0x08, 0x09, 0x0a, 0x0b, 0x0c, 0x0d, 0x0e, 0x0f]"

section \<open>Auxiliary facts\<close>

subsection \<open>The library interface\<close>

lemma length_gcm_tag: "length (gcm_tag L k v ct) = 16"
  by (simp add: gcm_tag_def bytes_of_block_def)

lemma length_gcm_crypt: "length (gcm_crypt L k v d) = length d"
  by (simp add: gcm_crypt_def)

lemma gcm_crypt_involution: "gcm_crypt L k v (gcm_crypt L k v d) = d"
proof (rule nth_equalityI)
  show "length (gcm_crypt L k v (gcm_crypt L k v d)) = length d"
    by (simp add: length_gcm_crypt)
next
  fix i assume "i < length (gcm_crypt L k v (gcm_crypt L k v d))"
  then have i: "i < length d" by (simp add: length_gcm_crypt)
  have inner: "gcm_crypt L k v d ! i = d ! i XOR keystream_byte L k v i"
    using i by (simp add: gcm_crypt_def)
  have "gcm_crypt L k v (gcm_crypt L k v d) ! i = gcm_crypt L k v d ! i XOR keystream_byte L k v i"
    using i by (simp add: gcm_crypt_def)
  then show "gcm_crypt L k v (gcm_crypt L k v d) ! i = d ! i"
    by (simp add: inner xor.assoc)
qed

lemma length_sha256_digest: "length (sha256_digest L d) = 32"
  by (simp add: sha256_digest_def)

lemma length_pbkdf2_hmac: "length (pbkdf2_hmac L h p s c n) = n"
  by (simp add: pbkdf2_hmac_def)

subsection \<open>The two branches of \<open>load_master_key\<close>\<close>

lemma load_master_key_absent:
  assumes "files w (path_join (cwd w) ''master.key'') = None"
  shows "load_master_key w =
    (map (entropy w) [entropy_pos w ..< entropy_pos w + 32],
     w\<lparr>entropy_pos := entropy_pos w + 32,
       files := (files w)(path_join (cwd w) ''master.key'' \<mapsto> map (entropy w) [entropy_pos w ..< entropy_pos w + 32]),
       write_log := (path_join (cwd w) ''master.key'', map (entropy w) [entropy_pos w ..< entropy_pos w + 32]) # write_log w\<rparr>)"
  using assms by (simp add: load_master_key_def os_urandom_def write_file_def Let_def)

lemma load_master_key_present:
  assumes "files w (path_join (cwd w) ''master.key'') = Some content"
  shows "load_master_key w = (content, w)"
  using assms by (simp add: load_master_key_def Let_def)

lemma load_master_key_times_present:
  assumes "files w (path_join (cwd w) ''master.key'') = Some content"
  shows "load_master_key_times n w = w"
  using assms by (induction n) (simp_all add: load_master_key_present)

subsection \<open>Base64: decoding inverts encoding\<close>

lemma b64_table: "\<forall>n\<in>set [0..<64]. b64_value (b64_char n) = Some n \<and> (of_char (b64_char n) :: nat) < 128 \<and> b64_char n \<noteq> CHR ''=''"
  by code_simp

lemma b64_value_char: "n < 64 \<Longrightarrow> b64_value (b64_char n) = Some n"
  using b64_table by simp

lemma b64_char_ascii: "n < 64 \<Longrightarrow> (of_char (b64_char n) :: nat) < 128"
  using b64_table by simp

lemma b64_char_not_pad: "n < 64 \<Longrightarrow> b64_char n \<noteq> CHR ''=''"
  using b64_table by simp

lemma unat_byte_less: "unat (a :: byte) < 256"
  using unsigned_less [of a, where ?'a = nat] by simp

lemma sextet_bounds:
  fixes a b c :: byte
  shows "unat a div 4 < 64" "(unat a mod 4) * 16 < 64"
    "(unat a mod 4) * 16 + unat b div 16 < 64"
    "(unat b mod 16) * 4 < 64"
    "(unat b mod 16) * 4 + unat c div 64 < 64" "unat c mod 64 < 64"
  using unat_byte_less [of a] unat_byte_less [of b] unat_byte_less [of c] by simp_all

lemma a2b_data_char:
  assumes "v < 64"
  shows "a2b_base64 (b64_char v # rest) q lc pads out =
     (if q = 0 then a2b_base64 rest 1 v 0 out
      else if q = 1 then a2b_base64 rest 2 (v mod 16) 0 (out @ [of_nat (lc * 4 + v div 16)])
      else if q = 2 then a2b_base64 rest 3 (v mod 4) 0 (out @ [of_nat (lc * 16 + v div 4)])
      else a2b_base64 rest 0 0 0 (out @ [of_nat (lc * 64 + v)]))"
  using assms by (simp add: b64_value_char b64_char_not_pad)

lemma join_bytes:
  fixes a b c :: byte
  shows "(of_nat (unat a div 4 * 4 + (unat a mod 4 * 16 + unat b div 16) div 16) :: byte) = a"
    and "(of_nat ((unat a mod 4 * 16 + unat b div 16) mod 16 * 16 + (unat b mod 16 * 4 + unat c div 64) div 4) :: byte) = b"
    and "(of_nat ((unat b mod 16 * 4 + unat c div 64) mod 4 * 64 + unat c mod 64) :: byte) = c"
    and "(of_nat (unat a div 4 * 4 + (unat a mod 4 * 16) div 16) :: byte) = a"
    and "(of_nat ((unat a mod 4 * 16 + unat b div 16) mod 16 * 16 + (unat b mod 16 * 4) div 4) :: byte) = b"
proof -
  have b: "unat b < 256" and c: "unat c < 256" by (rule unat_byte_less)+
  have "unat a div 4 * 4 + (unat a mod 4 * 16 + unat b div 16) div 16 = unat a"
    using b by simp
  then show "(of_nat (unat a div 4 * 4 + (unat a mod 4 * 16 + unat b div 16) div 16) :: byte) = a"
    by simp
  have "(unat a mod 4 * 16 + unat b div 16) mod 16 * 16 + (unat b mod 16 * 4 + unat c div 64) div 4 = unat b"
    using b c by simp
  then show "(of_nat ((unat a mod 4 * 16 + unat b div 16) mod 16 * 16 + (unat b mod 16 * 4 + unat c div 64) div 4) :: byte) = b"
    by simp
  have "(unat b mod 16 * 4 + unat c div 64) mod 4 * 64 + unat c mod 64 = unat c"
    using c by simp
  then show "(of_nat ((unat b mod 16 * 4 + unat c div 64) mod 4 * 64 + unat c mod 64) :: byte) = c"
    by simp
  have "unat a div 4 * 4 + (unat a mod 4 * 16) div 16 = unat a"
    by simp
  then show "(of_nat (unat a div 4 * 4 + (unat a mod 4 * 16) div 16) :: byte) = a"
    by simp
  have "(unat a mod 4 * 16 + unat b div 16) mod 16 * 16 + (unat b mod 16 * 4) div 4 = unat b"
    using b by simp
  then show "(of_nat ((unat a mod 4 * 16 + unat b div 16) mod 16 * 16 + (unat b mod 16 * 4) div 4) :: byte) = b"
    by simp
qed

lemma a2b_pad:
  "a2b_base64 (CHR ''='' # rest) q lc pads out =
     (if 2 \<le> q then (if 4 \<le> q + (pads + 1) then Inr out else a2b_base64 rest q lc (pads + 1) out)
      else a2b_base64 rest q lc pads out)"
  by simp

lemma a2b_b64encode:
  "a2b_base64 (b64encode xs) 0 lc pads out = Inr (out @ xs)"
proof (induction xs arbitrary: lc pads out rule: b64encode.induct)
  case 1
  show ?case by simp
next
  case (2 a)
  show ?case
    by (simp only: b64encode.simps a2b_data_char sextet_bounds a2b_pad join_bytes) simp
next
  case (3 a b)
  show ?case
    by (simp only: b64encode.simps a2b_data_char sextet_bounds a2b_pad join_bytes) simp
next
  case (4 a b c rest)
  have "a2b_base64 (b64encode (a # b # c # rest)) 0 lc pads out =
        a2b_base64 (b64encode rest) 0 0 0 (out @ [a, b, c])"
    by (simp only: b64encode.simps append.simps a2b_data_char sextet_bounds join_bytes) simp
  then show ?case by (simp add: "4.IH")
qed

lemma b64encode_ascii: "\<not> list_ex (\<lambda>c. 128 \<le> (of_char c :: nat)) (b64encode xs)"
  by (induction xs rule: b64encode.induct)
     (simp_all add: not_le b64_char_ascii sextet_bounds)

lemma b64decode_b64encode: "b64decode (b64encode xs) = Inr xs"
  using a2b_b64encode [of xs 0 0 "[]"] by (simp add: b64decode_def b64encode_ascii)

subsection \<open>The security variant, branch by branch\<close>

lemma fromhex_error: "fromhex s = Inl e \<Longrightarrow> e = ValueError"
  by (induction s arbitrary: e rule: fromhex.induct)
     (auto split: if_splits option.splits sum.splits)

lemma generate_random_bytes_frame:
  "generate_random_bytes n w = (map (entropy w) [entropy_pos w ..< entropy_pos w + n], w\<lparr>entropy_pos := entropy_pos w + n\<rparr>)"
  by (simp add: generate_random_bytes_def os_urandom_def)

lemma get_master_key_entropy_pos [simp]:
  "get_master_key (w\<lparr>entropy_pos := p\<rparr>) = get_master_key w"
  by (simp add: get_master_key_def)

lemma security_encrypt_data_world:
  "snd (security_encrypt_data L p nonce w) =
     (case nonce of None \<Rightarrow> w\<lparr>entropy_pos := entropy_pos w + 12\<rparr> | Some n \<Rightarrow> w)"
  by (simp add: security_encrypt_data_def generate_random_bytes_frame split: option.splits sum.splits)

lemma security_encrypt_data_result:
  "fst (security_encrypt_data L p nonce w) =
     (let n = (case nonce of None \<Rightarrow> map (entropy w) [entropy_pos w ..< entropy_pos w + 12] | Some m \<Rightarrow> m) in
      case get_master_key w of
        Inl e \<Rightarrow> Inl e
      | Inr k \<Rightarrow>
          if \<not> valid_aes_key k then Inl ValueError
          else if \<not> valid_gcm_iv n then Inl ValueError
          else Inr (gcm_crypt L k n p @ gcm_tag L k n (gcm_crypt L k n p), n))"
  by (simp add: security_encrypt_data_def generate_random_bytes_frame AESGCM_def aesgcm_encrypt_def Let_def
      split: option.splits sum.splits)

lemma security_decrypt_data_result:
  "security_decrypt_data L c n w =
     (case get_master_key w of
        Inl e \<Rightarrow> Inl e
      | Inr k \<Rightarrow>
          if \<not> valid_aes_key k then Inl ValueError
          else if \<not> valid_gcm_iv n then Inl ValueError
          else if length c < 16 then Inl InvalidTag
          else if drop (length c - 16) c = gcm_tag L k n (take (length c - 16) c)
          then Inr (gcm_crypt L k n (take (length c - 16) c))
          else Inl InvalidTag)"
  by (simp add: security_decrypt_data_def AESGCM_def aesgcm_decrypt_def Let_def split: sum.splits)

lemma records_round_trip:
  assumes "valid_aes_key k" "valid_gcm_iv v"
  shows "records_encrypt_data L d k v = Inr (b64encode (gcm_crypt L k v d), b64encode (gcm_tag L k v (gcm_crypt L k v d)))"
    and "records_decrypt_data L (b64encode (gcm_crypt L k v d)) (b64encode (gcm_tag L k v (gcm_crypt L k v d))) k v = Inr d"
  using assms
  by (simp_all add: records_encrypt_data_def records_decrypt_data_def Let_def b64decode_b64encode
      length_gcm_tag gcm_crypt_involution)

lemma security_round_trip:
  assumes "fst (security_encrypt_data L p nonce w) = Inr (c, n)"
    and "environ w2 MASTER_KEY_ENV_VAR = environ w MASTER_KEY_ENV_VAR"
  shows "security_decrypt_data L c n w2 = Inr p"
proof -
  have same: "get_master_key w2 = get_master_key w"
    using assms(2) by (simp add: get_master_key_def)
  from assms(1) obtain k where k: "get_master_key w = Inr k" "valid_aes_key k" "valid_gcm_iv n"
    and c: "c = gcm_crypt L k n p @ gcm_tag L k n (gcm_crypt L k n p)"
    by (auto simp: security_encrypt_data_result Let_def split: sum.splits if_splits)
  show ?thesis
    using k by (simp add: security_decrypt_data_result same c length_gcm_tag length_gcm_crypt gcm_crypt_involution)
qed

lemma security_encrypt_data_success:
  assumes r: "fst (security_encrypt_data L p nonce w) = Inr (c, n)"
  shows "\<exists>k. get_master_key w = Inr k \<and> valid_aes_key k \<and> valid_gcm_iv n
           \<and> c = gcm_crypt L k n p @ gcm_tag L k n (gcm_crypt L k n p)"
    and "n = (case nonce of None \<Rightarrow> map (entropy w) [entropy_pos w ..< entropy_pos w + 12] | Some m \<Rightarrow> m)"
proof -
  define n0 where "n0 = (case nonce of None \<Rightarrow> map (entropy w) [entropy_pos w ..< entropy_pos w + 12] | Some m \<Rightarrow> m)"
  have res: "fst (security_encrypt_data L p nonce w) =
     (case get_master_key w of
        Inl e \<Rightarrow> Inl e
      | Inr k \<Rightarrow>
          if \<not> valid_aes_key k then Inl ValueError
          else if \<not> valid_gcm_iv n0 then Inl ValueError
          else Inr (gcm_crypt L k n0 p @ gcm_tag L k n0 (gcm_crypt L k n0 p), n0))"
    unfolding n0_def by (simp add: security_encrypt_data_result Let_def)
  show "\<exists>k. get_master_key w = Inr k \<and> valid_aes_key k \<and> valid_gcm_iv n
           \<and> c = gcm_crypt L k n p @ gcm_tag L k n (gcm_crypt L k n p)"
  proof (cases "get_master_key w")
    case (Inl e)
    with r res show ?thesis by simp
  next
    case (Inr k)
    with r res have "valid_aes_key k" "valid_gcm_iv n0"
      and "c = gcm_crypt L k n0 p @ gcm_tag L k n0 (gcm_crypt L k n0 p)" and "n0 = n"
      by (simp_all split: if_splits) blast+
    with Inr show ?thesis by blast
  qed
  show "n = (case nonce of None \<Rightarrow> map (entropy w) [entropy_pos w ..< entropy_pos w + 12] | Some m \<Rightarrow> m)"
  proof (cases "get_master_key w")
    case (Inl e)
    with r res show ?thesis by simp
  next
    case (Inr k)
    with r res have "n = n0" by (simp split: if_splits)
    then show ?thesis by (simp add: n0_def)
  qed
qed

subsection \<open>The sample inputs\<close>

lemma sample_get_master_key:
  "get_master_key (sample_world (Some sample_key_hex)) = Inr (map of_nat [0..<16])"
  by (simp add: get_master_key_def sample_world_def sample_key_hex_def hex_value_def is_space_def upt_rec)

lemma sample_get_master_key_missing:
  "environ (sample_world None) MASTER_KEY_ENV_VAR = None"
  by (simp add: sample_world_def)

lemma sample_bad_hex: "fromhex ''0g'' = Inl ValueError"
  by (simp add: hex_value_def is_space_def)

lemma sample_derive:
  "fst (derive_user_key sample_lib (replicate 32 7) [0x61] w) =
     Inr (take 32 (pbkdf2_hmac sample_lib ''sha256'' (replicate 32 7) (sha256_digest sample_lib [0x61]) 100000 64),
          drop 32 (pbkdf2_hmac sample_lib ''sha256'' (replicate 32 7) (sha256_digest sample_lib [0x61]) 100000 64))"
  by (simp add: derive_user_key_def utf8_char_def Let_def)

lemma sample_no_master_key_file:
  "files (sample_world e) (path_join (cwd (sample_world e)) ''master.key'') = None"
  by (simp add: sample_world_def)

subsection \<open>UTF-8: encoding is injective\<close>








lemma str_encode_ascii: "str_encode (replicate n 0x61) = Inr (replicate n 0x61)"
  by (induction n) (simp_all add: utf8_char_def)

subsection \<open>Byte strings of a fixed length are finitely many\<close>

lemma finite_bytes_of_length: "finite {xs :: bytes. length xs = n}"
  using finite_lists_length_eq [of "UNIV :: byte set" n] by simp

lemma fixed_length_collision:
  fixes f :: "nat \<Rightarrow> bytes"
  assumes "\<And>i. length (f i) = n"
  shows "\<exists>i j. i \<noteq> j \<and> f i = f j"
proof (rule ccontr)
  assume "\<not> (\<exists>i j. i \<noteq> j \<and> f i = f j)"
  then have "inj f" by (auto simp: inj_on_def)
  moreover have "range f \<subseteq> {xs. length xs = n}" using assms by auto
  then have "finite (range f)" using finite_bytes_of_length by (rule finite_subset)
  ultimately have "finite (UNIV :: nat set)" by (rule finite_imageD [rotated])
  then show False by simp
qed

subsection \<open>When decryption returns and when it rejects\<close>

lemma b64decode_skips_newline: "b64decode (CHR 0x0A # s) = b64decode s"
proof -
  have "b64_value (CHR 0x0A) = None"
    by (simp add: b64_value_def b64_alphabet_def)
  then show ?thesis by (simp add: b64decode_def)
qed

lemma records_decrypt_data_Inr:
  assumes "records_decrypt_data L ciphertext_b64 tag_b64 k v = Inr p"
  shows "\<exists>ct. b64decode ciphertext_b64 = Inr ct \<and> b64decode tag_b64 = Inr (gcm_tag L k v ct)
           \<and> p = gcm_crypt L k v ct"
  using assms
  by (auto simp: records_decrypt_data_def split: sum.splits if_splits)

lemma records_decrypt_data_mismatch:
  assumes "b64decode ciphertext_b64 = Inr ct" "b64decode tag_b64 = Inr tag"
    and "valid_aes_key k" "valid_gcm_iv v" "length tag = 16" "tag \<noteq> gcm_tag L k v ct"
  shows "records_decrypt_data L ciphertext_b64 tag_b64 k v = Inl InvalidTag"
  using assms by (simp add: records_decrypt_data_def)

lemma security_decrypt_data_Inr:
  assumes "security_decrypt_data L c n w = Inr p"
  shows "\<exists>mk. get_master_key w = Inr mk \<and> 16 \<le> length c
     \<and> drop (length c - 16) c = gcm_tag L mk n (take (length c - 16) c)
     \<and> p = gcm_crypt L mk n (take (length c - 16) c)"
proof (cases "get_master_key w")
  case (Inl e)
  with assms show ?thesis by (simp add: security_decrypt_data_result)
next
  case (Inr mk)
  with assms show ?thesis
    by (simp add: security_decrypt_data_result not_less split: if_splits)
qed

lemma security_decrypt_data_mismatch:
  assumes "get_master_key w = Inr mk" "valid_aes_key mk" "valid_gcm_iv n"
    and "length c < 16 \<or> drop (length c - 16) c \<noteq> gcm_tag L mk n (take (length c - 16) c)"
  shows "security_decrypt_data L c n w = Inl InvalidTag"
  using assms by (auto simp: security_decrypt_data_result)

lemma gcm_crypt_inj: "gcm_crypt L k v a = gcm_crypt L k v b \<Longrightarrow> a = b"
  by (metis gcm_crypt_involution)

section \<open>The claims\<close>

subsection \<open>Encryption round trip\<close>

text \<open>
  C1. Decrypting what encryption produced gives the plaintext back, in both variants.
  Records variant: for every key and IV that the library accepts (a key of 16, 24 or 32
  bytes, an IV of 8 to 128 bytes), hence for every 32-byte key with the 32-byte IV that
  \<open>derive_user_key\<close> returns, encryption succeeds and decryption of its two strings
  returns the data. Security variant: when the environment variable holds the hex form
  of a valid key and the nonce is absent or acceptable, encryption succeeds; and
  whenever encryption returns a pair, decryption of that pair under the same environment
  (before or after the call) returns the plaintext.
\<close>

theorem encrypt_decrypt_round_trip:
  "(valid_aes_key k \<and> valid_gcm_iv v \<longrightarrow>
      (\<exists>c t. records_encrypt_data L data k v = Inr (c, t) \<and> records_decrypt_data L c t k v = Inr data))
   \<and> (length k = 32 \<and> fst (derive_user_key L master_key user_id w0) = Inr (k', v') \<longrightarrow>
      (\<exists>c t. records_encrypt_data L data k v' = Inr (c, t) \<and> records_decrypt_data L c t k v' = Inr data))
   \<and> (get_master_key w = Inr mk \<and> valid_aes_key mk \<and> (case nonce of None \<Rightarrow> True | Some m \<Rightarrow> valid_gcm_iv m) \<longrightarrow>
      (\<exists>c n. fst (security_encrypt_data L plaintext nonce w) = Inr (c, n)))
   \<and> (\<forall>c n. fst (security_encrypt_data L plaintext nonce w) = Inr (c, n) \<longrightarrow>
        security_decrypt_data L c n w = Inr plaintext
        \<and> security_decrypt_data L c n (snd (security_encrypt_data L plaintext nonce w)) = Inr plaintext)"
proof (intro conjI impI allI)
  assume "valid_aes_key k \<and> valid_gcm_iv v"
  then show "\<exists>c t. records_encrypt_data L data k v = Inr (c, t) \<and> records_decrypt_data L c t k v = Inr data"
    using records_round_trip [of k v L data] by blast
next
  assume a: "length k = 32 \<and> fst (derive_user_key L master_key user_id w0) = Inr (k', v')"
  then have "length v' = 32"
    by (auto simp: derive_user_key_def Let_def length_pbkdf2_hmac split: sum.splits)
  then have "valid_aes_key k" "valid_gcm_iv v'"
    using a by (simp_all add: valid_aes_key_def valid_gcm_iv_def)
  then show "\<exists>c t. records_encrypt_data L data k v' = Inr (c, t) \<and> records_decrypt_data L c t k v' = Inr data"
    using records_round_trip [of k v' L data] by blast
next
  assume "get_master_key w = Inr mk \<and> valid_aes_key mk \<and> (case nonce of None \<Rightarrow> True | Some m \<Rightarrow> valid_gcm_iv m)"
  then show "\<exists>c n. fst (security_encrypt_data L plaintext nonce w) = Inr (c, n)"
    by (cases nonce) (simp_all add: security_encrypt_data_result valid_gcm_iv_def Let_def)
next
  fix c n assume r: "fst (security_encrypt_data L plaintext nonce w) = Inr (c, n)"
  show "security_decrypt_data L c n w = Inr plaintext"
    using security_round_trip [OF r] by simp
  show "security_decrypt_data L c n (snd (security_encrypt_data L plaintext nonce w)) = Inr plaintext"
    using security_round_trip [OF r] by (simp add: security_encrypt_data_world split: option.splits)
qed

theorem encrypt_decrypt_round_trip_witness:
  "(\<exists>c t. records_encrypt_data sample_lib [1, 2, 3] (replicate 32 7) (replicate 32 9) = Inr (c, t)
      \<and> records_decrypt_data sample_lib c t (replicate 32 7) (replicate 32 9) = Inr [1, 2, 3])
   \<and> (\<exists>k' v' c t. fst (derive_user_key sample_lib (replicate 32 7) [0x61] (sample_world None)) = Inr (k', v')
      \<and> records_encrypt_data sample_lib [1, 2, 3] (replicate 32 7) v' = Inr (c, t)
      \<and> records_decrypt_data sample_lib c t (replicate 32 7) v' = Inr [1, 2, 3])
   \<and> (\<exists>c n. fst (security_encrypt_data sample_lib [1, 2, 3] None (sample_world (Some sample_key_hex))) = Inr (c, n)
      \<and> security_decrypt_data sample_lib c n (sample_world (Some sample_key_hex)) = Inr [1, 2, 3])"
proof -
  note rt = encrypt_decrypt_round_trip [where L = sample_lib and data = "[1, 2, 3]"
      and k = "replicate 32 7" and v = "replicate 32 9" and master_key = "replicate 32 7"
      and user_id = "[0x61]" and ?w0.0 = "sample_world None"
      and k' = "take 32 (pbkdf2_hmac sample_lib ''sha256'' (replicate 32 7) (sha256_digest sample_lib [0x61]) 100000 64)"
      and v' = "drop 32 (pbkdf2_hmac sample_lib ''sha256'' (replicate 32 7) (sha256_digest sample_lib [0x61]) 100000 64)"
      and w = "sample_world (Some sample_key_hex)" and mk = "map of_nat [0..<16]"
      and nonce = None and plaintext = "[1, 2, 3]"]
  have valid: "valid_aes_key (replicate 32 7)" "valid_gcm_iv (replicate 32 9)"
    "valid_aes_key (map of_nat [0..<16])"
    by (simp_all add: valid_aes_key_def valid_gcm_iv_def)
  show ?thesis
    using rt valid sample_derive [of "sample_world None"] sample_get_master_key
    by (simp only: length_replicate option.case) blast
qed

subsection \<open>The master key of the security variant\<close>

text \<open>
  C3. For \<open>encrypt_data\<close> and \<open>decrypt_data\<close> of the security variant: when the
  master-key variable is not set, the call fails with \<open>RuntimeError\<close>; when its value is
  not accepted by \<open>fromhex\<close>, the call fails with the decoder's \<open>ValueError\<close>. This holds in
  every world, so after any earlier call as well: no key is kept from one call to the
  next. No key is generated or stored either: the files, the environment and the write
  log are the same after the call as before.
\<close>

theorem master_key_missing_or_invalid_is_fatal:
  "(environ w MASTER_KEY_ENV_VAR = None \<longrightarrow>
      fst (security_encrypt_data L plaintext nonce w) = Inl RuntimeError
      \<and> security_decrypt_data L ciphertext n w = Inl RuntimeError)
   \<and> (\<forall>s e. environ w MASTER_KEY_ENV_VAR = Some s \<and> fromhex s = Inl e \<longrightarrow>
        e = ValueError
        \<and> fst (security_encrypt_data L plaintext nonce w) = Inl ValueError
        \<and> security_decrypt_data L ciphertext n w = Inl ValueError)
   \<and> files (snd (security_encrypt_data L plaintext nonce w)) = files w
   \<and> environ (snd (security_encrypt_data L plaintext nonce w)) = environ w
   \<and> write_log (snd (security_encrypt_data L plaintext nonce w)) = write_log w"
proof (intro conjI impI allI)
  assume "environ w MASTER_KEY_ENV_VAR = None"
  then have g: "get_master_key w = Inl RuntimeError"
    by (simp add: get_master_key_def)
  show "fst (security_encrypt_data L plaintext nonce w) = Inl RuntimeError"
    by (simp add: security_encrypt_data_result g)
  show "security_decrypt_data L ciphertext n w = Inl RuntimeError"
    by (simp add: security_decrypt_data_result g)
next
  fix s e assume a: "environ w MASTER_KEY_ENV_VAR = Some s \<and> fromhex s = Inl e"
  then show e: "e = ValueError" using fromhex_error by blast
  from a e have g: "get_master_key w = Inl ValueError"
    by (simp add: get_master_key_def)
  show "fst (security_encrypt_data L plaintext nonce w) = Inl ValueError"
    by (simp add: security_encrypt_data_result g)
  show "security_decrypt_data L ciphertext n w = Inl ValueError"
    by (simp add: security_decrypt_data_result g)
qed (simp_all add: security_encrypt_data_world split: option.splits)

theorem master_key_missing_or_invalid_is_fatal_witness:
  "fst (security_encrypt_data sample_lib [1, 2, 3] None (sample_world None)) = Inl RuntimeError
   \<and> security_decrypt_data sample_lib [4, 5] [6] (sample_world None) = Inl RuntimeError
   \<and> fst (security_encrypt_data sample_lib [1, 2, 3] None (sample_world (Some ''0g''))) = Inl ValueError
   \<and> security_decrypt_data sample_lib [4, 5] [6] (sample_world (Some ''0g'')) = Inl ValueError"
proof -
  have set: "environ (sample_world (Some ''0g'')) MASTER_KEY_ENV_VAR = Some ''0g''"
    by (simp add: sample_world_def)
  show ?thesis
    using master_key_missing_or_invalid_is_fatal [where w = "sample_world None" and L = sample_lib
        and plaintext = "[1, 2, 3]" and nonce = None and ciphertext = "[4, 5]" and n = "[6]"]
      master_key_missing_or_invalid_is_fatal [where w = "sample_world (Some ''0g'')" and L = sample_lib
        and plaintext = "[1, 2, 3]" and nonce = None and ciphertext = "[4, 5]" and n = "[6]"]
      sample_get_master_key_missing set sample_bad_hex
    by blast
qed

subsection \<open>Key derivation\<close>




text \<open>
  Why the last part of the statement carries a condition on SHA-256: a salt has 32
  bytes and there are infinitely many identifiers, so whatever SHA-256 computes, two
  identifiers share a salt, and with it the derived key and IV under every master key.
\<close>

lemma salts_collide_for_some_users:
  "\<exists>user1 user2 encoded1 encoded2.
     user1 \<noteq> user2
     \<and> str_encode user1 = Inr encoded1 \<and> str_encode user2 = Inr encoded2
     \<and> sha256_digest L encoded1 = sha256_digest L encoded2
     \<and> (\<forall>master_key w. fst (derive_user_key L master_key user1 w) = fst (derive_user_key L master_key user2 w))"
proof -
  obtain i j where ij: "i \<noteq> j"
    and same: "sha256_digest L (replicate i 0x61) = sha256_digest L (replicate j 0x61)"
    using fixed_length_collision [of "\<lambda>i. sha256_digest L (replicate i 0x61)" 32]
    by (auto simp: length_sha256_digest)
  have ne: "replicate i (0x61 :: nat) \<noteq> replicate j 0x61"
    using ij by (metis length_replicate)
  have "fst (derive_user_key L master_key (replicate i 0x61) w)
      = fst (derive_user_key L master_key (replicate j 0x61) w)" for master_key w
    by (simp add: derive_user_key_def str_encode_ascii same)
  with ne same str_encode_ascii show ?thesis by blast
qed

subsection \<open>The master key of the records variant\<close>

text \<open>
  C5. On the first call, with no \<^verbatim>\<open>master.key\<close> in the working directory,
  \<open>load_master_key\<close> returns 32 bytes and the file then holds exactly these 32 bytes;
  every later call, however many came before, returns 32 bytes again and the file still
  holds them. A file that is there is returned as it is, so a file of 32 bytes gives a
  key of 32 bytes.
\<close>

theorem load_master_key_32_bytes:
  "(files w (path_join (cwd w) ''master.key'') = None \<longrightarrow>
      length (fst (load_master_key w)) = 32
      \<and> files (snd (load_master_key w)) (path_join (cwd w) ''master.key'') = Some (fst (load_master_key w))
      \<and> (\<forall>n. length (fst (load_master_key (load_master_key_times n (snd (load_master_key w))))) = 32
            \<and> files (snd (load_master_key (load_master_key_times n (snd (load_master_key w)))))
                 (path_join (cwd w) ''master.key'') = Some (fst (load_master_key w))))
   \<and> (\<forall>content. files w (path_join (cwd w) ''master.key'') = Some content \<longrightarrow>
        load_master_key w = (content, w)
        \<and> (length content = 32 \<longrightarrow> length (fst (load_master_key w)) = 32))"
proof (intro conjI impI allI)
  assume a: "files w (path_join (cwd w) ''master.key'') = None"
  note idem = load_master_key_absent [OF a]
  let ?w1 = "snd (load_master_key w)"
  have present: "files ?w1 (path_join (cwd ?w1) ''master.key'') = Some (fst (load_master_key w))"
    by (simp add: idem)
  show "length (fst (load_master_key w)) = 32" by (simp add: idem)
  show "files ?w1 (path_join (cwd w) ''master.key'') = Some (fst (load_master_key w))"
    by (simp add: idem)
  fix n
  have later: "load_master_key (load_master_key_times n ?w1) = (fst (load_master_key w), ?w1)"
    by (simp add: load_master_key_times_present [OF present] load_master_key_present [OF present])
  show "length (fst (load_master_key (load_master_key_times n ?w1))) = 32"
    by (simp only: later fst_conv) (simp add: idem)
  show "files (snd (load_master_key (load_master_key_times n ?w1))) (path_join (cwd w) ''master.key'')
      = Some (fst (load_master_key w))"
    by (simp only: later snd_conv) (simp add: idem)
next
  fix content assume "files w (path_join (cwd w) ''master.key'') = Some content"
  then show "load_master_key w = (content, w)" by (rule load_master_key_present)
  then show "length (fst (load_master_key w)) = 32" if "length content = 32"
    using that by simp
qed

theorem load_master_key_32_bytes_witness:
  "length (fst (load_master_key (sample_world None))) = 32
   \<and> length (fst (load_master_key (snd (load_master_key (sample_world None))))) = 32
   \<and> load_master_key (snd (load_master_key (sample_world None)))
       = (fst (load_master_key (sample_world None)), snd (load_master_key (sample_world None)))"
proof -
  note first = load_master_key_32_bytes [where w = "sample_world None"]
  have absent: "files (sample_world None) (path_join (cwd (sample_world None)) ''master.key'') = None"
    by (rule sample_no_master_key_file)
  have cwd: "cwd (snd (load_master_key (sample_world None))) = cwd (sample_world None)"
    by (simp add: load_master_key_absent [OF absent])
  from first absent
  have len: "length (fst (load_master_key (sample_world None))) = 32"
    and present: "files (snd (load_master_key (sample_world None)))
        (path_join (cwd (sample_world None)) ''master.key'') = Some (fst (load_master_key (sample_world None)))"
    by blast+
  note later = load_master_key_32_bytes [where w = "snd (load_master_key (sample_world None))"]
  from later present len cwd
  have "load_master_key (snd (load_master_key (sample_world None)))
       = (fst (load_master_key (sample_world None)), snd (load_master_key (sample_world None)))"
    by simp
  with len show ?thesis by simp
qed

text \<open>
  C6. When no \<^verbatim>\<open>master.key\<close> exists, the first call draws 32 bytes from the random
  source, writes them to the file (one entry more in the write log) and returns them.
  Every call after it, however many came before, returns the same bytes and leaves
  the world as the first call left it: the file is not written again and no random
  byte is drawn.
\<close>

theorem load_master_key_idempotent:
  assumes "files w (path_join (cwd w) ''master.key'') = None"
  shows "fst (load_master_key w) = map (entropy w) [entropy_pos w ..< entropy_pos w + 32]
    \<and> length (fst (load_master_key w)) = 32
    \<and> files (snd (load_master_key w)) (path_join (cwd w) ''master.key'') = Some (fst (load_master_key w))
    \<and> write_log (snd (load_master_key w)) = (path_join (cwd w) ''master.key'', fst (load_master_key w)) # write_log w
    \<and> (\<forall>n. load_master_key (load_master_key_times n (snd (load_master_key w)))
           = (fst (load_master_key w), snd (load_master_key w)))"
proof -
  let ?w1 = "snd (load_master_key w)"
  let ?k = "fst (load_master_key w)"
  have first: "load_master_key w = (?k, ?w1)" by simp
  have k: "?k = map (entropy w) [entropy_pos w ..< entropy_pos w + 32]"
    by (simp add: load_master_key_absent [OF assms])
  have present: "files ?w1 (path_join (cwd ?w1) ''master.key'') = Some ?k"
    by (simp add: load_master_key_absent [OF assms])
  have log: "write_log ?w1 = (path_join (cwd w) ''master.key'', ?k) # write_log w"
    by (simp add: load_master_key_absent [OF assms])
  have cwd: "cwd ?w1 = cwd w"
    by (simp add: load_master_key_absent [OF assms])
  have later: "load_master_key (load_master_key_times n ?w1) = (?k, ?w1)" for n
    by (simp add: load_master_key_times_present [OF present] load_master_key_present [OF present])
  show ?thesis
    using k present log later by (simp add: cwd)
qed

theorem load_master_key_idempotent_witness:
  "length (fst (load_master_key (sample_world None))) = 32
   \<and> load_master_key (load_master_key_times 5 (snd (load_master_key (sample_world None))))
       = (fst (load_master_key (sample_world None)), snd (load_master_key (sample_world None)))
   \<and> length (write_log (snd (load_master_key (sample_world None)))) = 1"
proof -
  note idem = load_master_key_idempotent [OF sample_no_master_key_file [of None]]
  from idem have len: "length (fst (load_master_key (sample_world None))) = 32"
    by blast
  from idem have again: "load_master_key (load_master_key_times 5 (snd (load_master_key (sample_world None))))
       = (fst (load_master_key (sample_world None)), snd (load_master_key (sample_world None)))"
    by blast
  from idem have "write_log (snd (load_master_key (sample_world None)))
      = (path_join (cwd (sample_world None)) ''master.key'', fst (load_master_key (sample_world None)))
        # write_log (sample_world None)"
    by blast
  then have "length (write_log (snd (load_master_key (sample_world None)))) = 1"
    by (simp add: sample_world_def)
  with len again show ?thesis by blast
qed

subsection \<open>What the security variant returns\<close>

text \<open>
  C7. Called without a nonce, \<open>encrypt_data\<close> of the security variant takes the next 12
  bytes of the random source as the nonce (they are used up: the next call gets other
  ones). Whenever it returns a pair, with or without a supplied nonce, the first
  component is the ciphertext of the plaintext followed by the 16-byte tag and nothing
  else, so it is 16 bytes longer than the plaintext and has no room for the nonce; the
  second component is the nonce itself. With a valid key in the environment the call
  without a nonce does return such a pair.
\<close>

theorem security_encrypt_data_result_shape:
  "snd (security_encrypt_data L plaintext None w) = w\<lparr>entropy_pos := entropy_pos w + 12\<rparr>
   \<and> (\<forall>c n. fst (security_encrypt_data L plaintext nonce w) = Inr (c, n) \<longrightarrow>
        (\<exists>k. get_master_key w = Inr k
           \<and> c = gcm_crypt L k n plaintext @ gcm_tag L k n (gcm_crypt L k n plaintext))
        \<and> length c = length plaintext + 16
        \<and> n = (case nonce of
                 None \<Rightarrow> map (entropy w) [entropy_pos w ..< entropy_pos w + 12]
               | Some m \<Rightarrow> m)
        \<and> (nonce = None \<longrightarrow> length n = 12))
   \<and> (\<forall>k. get_master_key w = Inr k \<and> valid_aes_key k \<longrightarrow>
        fst (security_encrypt_data L plaintext None w) =
          (let n = map (entropy w) [entropy_pos w ..< entropy_pos w + 12] in
           Inr (gcm_crypt L k n plaintext @ gcm_tag L k n (gcm_crypt L k n plaintext), n)))"
proof (intro conjI impI allI)
  show "snd (security_encrypt_data L plaintext None w) = w\<lparr>entropy_pos := entropy_pos w + 12\<rparr>"
    by (simp add: security_encrypt_data_world)
next
  fix c n assume r: "fst (security_encrypt_data L plaintext nonce w) = Inr (c, n)"
  from security_encrypt_data_success(1) [OF r]
  obtain k where k: "get_master_key w = Inr k"
    and c: "c = gcm_crypt L k n plaintext @ gcm_tag L k n (gcm_crypt L k n plaintext)"
    by blast
  note n = security_encrypt_data_success(2) [OF r]
  show "\<exists>k. get_master_key w = Inr k
      \<and> c = gcm_crypt L k n plaintext @ gcm_tag L k n (gcm_crypt L k n plaintext)"
    using k c by blast
  show "length c = length plaintext + 16"
    by (simp only: c length_append length_gcm_crypt length_gcm_tag)
  show "n = (case nonce of None \<Rightarrow> map (entropy w) [entropy_pos w ..< entropy_pos w + 12] | Some m \<Rightarrow> m)"
    by (rule n)
  show "length n = 12" if "nonce = None"
    by (simp add: n that)
next
  fix k assume "get_master_key w = Inr k \<and> valid_aes_key k"
  then show "fst (security_encrypt_data L plaintext None w) =
          (let n = map (entropy w) [entropy_pos w ..< entropy_pos w + 12] in
           Inr (gcm_crypt L k n plaintext @ gcm_tag L k n (gcm_crypt L k n plaintext), n))"
    by (simp add: security_encrypt_data_result Let_def valid_gcm_iv_def)
qed

theorem security_encrypt_data_result_shape_witness:
  "\<exists>c n. fst (security_encrypt_data sample_lib [1, 2, 3] None (sample_world (Some sample_key_hex))) = Inr (c, n)
     \<and> length c = 19 \<and> length n = 12
     \<and> n = map (\<lambda>i. of_nat (7 * i + 1)) [0..<12]"
proof -
  note shape = security_encrypt_data_result_shape [where L = sample_lib and plaintext = "[1, 2, 3]"
      and nonce = None and w = "sample_world (Some sample_key_hex)"]
  have valid: "valid_aes_key (map of_nat [0..<16])"
    by (simp add: valid_aes_key_def)
  from shape sample_get_master_key valid
  obtain c n where r: "fst (security_encrypt_data sample_lib [1, 2, 3] None (sample_world (Some sample_key_hex))) = Inr (c, n)"
    by (metis (no_types, lifting))
  with shape have "length c = length [1, 2, 3 :: byte] + 16" and "length n = 12"
    and "n = map (entropy (sample_world (Some sample_key_hex)))
          [entropy_pos (sample_world (Some sample_key_hex)) ..< entropy_pos (sample_world (Some sample_key_hex)) + 12]"
    by (simp_all del: upt_Suc)
  with r show ?thesis by (simp add: sample_world_def del: upt_Suc)
qed

text \<open>
  C10. With a supplied nonce the result of \<open>encrypt_data\<close> of the security variant
  depends on the world only through the value of the master-key variable: two runs in
  worlds that agree on it (whatever their files and random sources) give the same
  result for the same plaintext and nonce. The nonce of a returned pair is the supplied
  one, and the call changes nothing, the random source included.
\<close>

theorem security_encrypt_data_supplied_nonce:
  "(environ w1 MASTER_KEY_ENV_VAR = environ w2 MASTER_KEY_ENV_VAR \<longrightarrow>
      fst (security_encrypt_data L plaintext (Some nonce) w1)
        = fst (security_encrypt_data L plaintext (Some nonce) w2))
   \<and> (\<forall>c n. fst (security_encrypt_data L plaintext (Some nonce) w1) = Inr (c, n) \<longrightarrow> n = nonce)
   \<and> snd (security_encrypt_data L plaintext (Some nonce) w1) = w1"
proof (intro conjI impI allI)
  assume "environ w1 MASTER_KEY_ENV_VAR = environ w2 MASTER_KEY_ENV_VAR"
  then have "get_master_key w1 = get_master_key w2"
    by (simp add: get_master_key_def)
  then show "fst (security_encrypt_data L plaintext (Some nonce) w1)
        = fst (security_encrypt_data L plaintext (Some nonce) w2)"
    by (simp add: security_encrypt_data_result)
next
  fix c n assume "fst (security_encrypt_data L plaintext (Some nonce) w1) = Inr (c, n)"
  then show "n = nonce"
    by (auto simp: security_encrypt_data_result Let_def split: sum.splits if_splits)
next
  show "snd (security_encrypt_data L plaintext (Some nonce) w1) = w1"
    by (simp add: security_encrypt_data_world)
qed

theorem security_encrypt_data_supplied_nonce_witness:
  "fst (security_encrypt_data sample_lib [1, 2, 3] (Some (replicate 12 9)) (sample_world (Some sample_key_hex)))
     = fst (security_encrypt_data sample_lib [1, 2, 3] (Some (replicate 12 9))
         ((sample_world (Some sample_key_hex))\<lparr>entropy_pos := 40, write_log := [(''x'', [])]\<rparr>))
   \<and> (\<exists>c. fst (security_encrypt_data sample_lib [1, 2, 3] (Some (replicate 12 9)) (sample_world (Some sample_key_hex)))
         = Inr (c, replicate 12 9))"
proof -
  note det = security_encrypt_data_supplied_nonce [where L = sample_lib and plaintext = "[1, 2, 3]"
      and nonce = "replicate 12 9" and ?w1.0 = "sample_world (Some sample_key_hex)"
      and ?w2.0 = "(sample_world (Some sample_key_hex))\<lparr>entropy_pos := 40, write_log := [(''x'', [])]\<rparr>"]
  have same: "environ (sample_world (Some sample_key_hex)) MASTER_KEY_ENV_VAR
      = environ ((sample_world (Some sample_key_hex))\<lparr>entropy_pos := 40, write_log := [(''x'', [])]\<rparr>) MASTER_KEY_ENV_VAR"
    by simp
  have ok: "\<exists>c n. fst (security_encrypt_data sample_lib [1, 2, 3] (Some (replicate 12 9)) (sample_world (Some sample_key_hex)))
         = Inr (c, n)"
    by (simp add: security_encrypt_data_result sample_get_master_key valid_aes_key_def valid_gcm_iv_def Let_def)
  from det same ok show ?thesis by metis
qed

subsection \<open>The stubs\<close>

text \<open>
  C8. For every phone number and every optional metadata value (none included),
  \<open>start_call\<close> returns True and leaves the whole world as it was: files, environment,
  random source and write log are unchanged.
\<close>

theorem start_call_true_no_effect:
  "start_call phone_number context w = (True, w)"
  by (simp add: start_call_def)

text \<open>
  C9. For every application object, \<open>register_routes\<close> returns no value, hands the
  application object back unchanged, and leaves the world as it was.
\<close>

theorem register_routes_noop:
  "register_routes app w = ((), app, w)"
  by (simp add: register_routes_def)

end
